theory Spec2Isabelle
  imports Main "HOL-Library.Sublist"
begin

section \<open>Value objects referenced by node.py\<close>

text \<open>
  The module \<^verbatim>\<open>caret_analyze/value_objects/node.py\<close> imports the classes of its
  publishers, subscriptions, callbacks and callback groups from sibling modules.  It reads
  only \<^verbatim>\<open>topic_name\<close>, \<^verbatim>\<open>callback_name\<close>, \<^verbatim>\<open>callback_group_name\<close> and
  \<^verbatim>\<open>callbacks\<close> of them; every other attribute of a publisher, a subscription or a
  callback is kept in one opaque component, so that two entries on the same topic can
  still differ.  Node paths, variable passings and message contexts are never inspected
  by the module and stay type parameters.
\<close>

record 'p PublisherStructValue =
  pub_topic_name :: string
  pub_rest :: 'p

record 's SubscriptionStructValue =
  sub_topic_name :: string
  sub_rest :: 's

record 'c CallbackStructValue =
  callback_name :: string
  cb_rest :: 'c

record 'c CallbackGroupStructValue =
  callback_group_name :: string
  cbg_callbacks :: "'c CallbackStructValue list"

text \<open>The exception class imported from \<^verbatim>\<open>..exceptions\<close>; it carries its message.\<close>

datatype error = ItemNotFoundError string

fun error_message :: "error \<Rightarrow> string" where
  "error_message (ItemNotFoundError msg) = msg"

section \<open>Helpers of \<^verbatim>\<open>..common.Util\<close>\<close>

text \<open>
  Modelled from the spec: \<^verbatim>\<open>Util.flatten\<close> (module \<^verbatim>\<open>caret_analyze/common\<close>) is
  called by \<^verbatim>\<open>NodeStructValue.callbacks\<close> and is not part of the sources at hand.
  The specification describes its result as the flattening of all groups' callbacks in
  group order, then within-group order.
\<close>

primrec flatten :: "'a list list \<Rightarrow> 'a list" where
  "flatten [] = []"
| "flatten (xs # xss) = xs @ flatten xss"

text \<open>
  Modelled from the spec: \<^verbatim>\<open>Util.find_one\<close> (module \<^verbatim>\<open>caret_analyze/common\<close>) is
  called by \<^verbatim>\<open>get_publisher\<close> and \<^verbatim>\<open>get_subscription\<close> and is not part of the
  sources at hand.  The specification describes it as a scan of the collection in
  declared order for an entry satisfying the condition: the first encountered match is
  returned, and with zero matches the NotFound condition (\<^verbatim>\<open>ItemNotFoundError\<close>) is
  raised.  The message of that inner exception is not described; the callers in node.py
  discard it.
\<close>

fun find_one :: "('a \<Rightarrow> bool) \<Rightarrow> 'a list \<Rightarrow> error + 'a" where
  "find_one condition [] = Inl (ItemNotFoundError [])"
| "find_one condition (x # items) =
     (if condition x then Inr x else find_one condition items)"

section \<open>NodeValue\<close>

record NodeValue =
  f_nv_node_name :: string
  f_nv_node_id :: "string option"

definition NodeValue_init :: "string \<Rightarrow> string option \<Rightarrow> NodeValue" where
  "NodeValue_init node_name node_id =
     \<lparr>f_nv_node_name = node_name, f_nv_node_id = node_id\<rparr>"

definition nv_node_name :: "NodeValue \<Rightarrow> string" where
  "nv_node_name self = f_nv_node_name self"

definition nv_node_id :: "NodeValue \<Rightarrow> string option" where
  "nv_node_id self = f_nv_node_id self"

text \<open>
  A Python object has an identity besides its state: \<^verbatim>\<open>is\<close> compares the former.
\<close>

datatype 'a obj = Obj (obj_id: nat) (obj_state: 'a)

definition is_same :: "'a obj \<Rightarrow> 'a obj \<Rightarrow> bool" where
  "is_same a b = (obj_id a = obj_id b)"

text \<open>
  Modelled from the spec: \<^verbatim>\<open>ValueObject.__eq__\<close> (module
  \<^verbatim>\<open>caret_analyze/value_objects/value_object\<close>), the base class that gives
  \<^verbatim>\<open>NodeValue\<close> its \<^verbatim>\<open>==\<close>, is not part of the sources at hand.  The specification
  describes the equality as structural: field-wise over the public accessors, here
  \<^verbatim>\<open>node_name\<close> and \<^verbatim>\<open>node_id\<close>, not reference identity.
\<close>

definition NodeValue_eq :: "NodeValue obj \<Rightarrow> NodeValue obj \<Rightarrow> bool" where
  "NodeValue_eq a b =
     (nv_node_name (obj_state a) = nv_node_name (obj_state b) \<and>
      nv_node_id (obj_state a) = nv_node_id (obj_state b))"

section \<open>NodeStructValue\<close>

record ('p, 's, 'c, 'np, 'vp, 'mc) NodeStructValue =
  f_node_name :: string
  f_publishers :: "'p PublisherStructValue list"
  f_subscriptions :: "'s SubscriptionStructValue list"
  f_callback_groups :: "'c CallbackGroupStructValue list option"
  f_node_path_values :: "'np list"
  f_variable_passings_info :: "'vp list option"
  f_message_contexts :: "'mc list"

definition NodeStructValue_init ::
  "string \<Rightarrow> 'p PublisherStructValue list \<Rightarrow> 's SubscriptionStructValue list \<Rightarrow>
   'np list \<Rightarrow> 'c CallbackGroupStructValue list option \<Rightarrow> 'vp list option \<Rightarrow> 'mc list \<Rightarrow>
   ('p, 's, 'c, 'np, 'vp, 'mc) NodeStructValue" where
  "NodeStructValue_init node_name publisher_values subscriptions_info node_path_values
     callback_group_values variable_passing_values message_contexts =
     \<lparr>f_node_name = node_name,
      f_publishers = publisher_values,
      f_subscriptions = subscriptions_info,
      f_callback_groups = callback_group_values,
      f_node_path_values = node_path_values,
      f_variable_passings_info = variable_passing_values,
      f_message_contexts = message_contexts\<rparr>"

definition node_name :: "('p, 's, 'c, 'np, 'vp, 'mc) NodeStructValue \<Rightarrow> string" where
  "node_name self = f_node_name self"

definition publisher ::
  "('p, 's, 'c, 'np, 'vp, 'mc) NodeStructValue \<Rightarrow> 'p PublisherStructValue list" where
  "publisher self = f_publishers self"

definition publish_topic_names ::
  "('p, 's, 'c, 'np, 'vp, 'mc) NodeStructValue \<Rightarrow> string list" where
  "publish_topic_names self = map pub_topic_name (f_publishers self)"

definition subscribe_topic_names ::
  "('p, 's, 'c, 'np, 'vp, 'mc) NodeStructValue \<Rightarrow> string list" where
  "subscribe_topic_names self = map sub_topic_name (f_subscriptions self)"

definition subscription_values ::
  "('p, 's, 'c, 'np, 'vp, 'mc) NodeStructValue \<Rightarrow> 's SubscriptionStructValue list" where
  "subscription_values self = f_subscriptions self"

definition callbacks ::
  "('p, 's, 'c, 'np, 'vp, 'mc) NodeStructValue \<Rightarrow> 'c CallbackStructValue list option" where
  "callbacks self =
     (case f_callback_groups self of
        None \<Rightarrow> None
      | Some groups \<Rightarrow> Some (flatten (map cbg_callbacks groups)))"

definition callback_names ::
  "('p, 's, 'c, 'np, 'vp, 'mc) NodeStructValue \<Rightarrow> string list option" where
  "callback_names self =
     (case callbacks self of
        None \<Rightarrow> None
      | Some cbs \<Rightarrow> Some (map callback_name cbs))"

definition callback_groups ::
  "('p, 's, 'c, 'np, 'vp, 'mc) NodeStructValue \<Rightarrow> 'c CallbackGroupStructValue list option" where
  "callback_groups self = f_callback_groups self"

definition callback_group_names ::
  "('p, 's, 'c, 'np, 'vp, 'mc) NodeStructValue \<Rightarrow> string list option" where
  "callback_group_names self =
     (case callback_groups self of
        None \<Rightarrow> None
      | Some groups \<Rightarrow> Some (map callback_group_name groups))"

definition paths :: "('p, 's, 'c, 'np, 'vp, 'mc) NodeStructValue \<Rightarrow> 'np list" where
  "paths self = f_node_path_values self"

definition variable_passings ::
  "('p, 's, 'c, 'np, 'vp, 'mc) NodeStructValue \<Rightarrow> 'vp list option" where
  "variable_passings self = f_variable_passings_info self"

definition message_contexts :: "('p, 's, 'c, 'np, 'vp, 'mc) NodeStructValue \<Rightarrow> 'mc list" where
  "message_contexts self = f_message_contexts self"

definition get_subscription ::
  "('p, 's, 'c, 'np, 'vp, 'mc) NodeStructValue \<Rightarrow> string \<Rightarrow> error + 's SubscriptionStructValue"
  where
  "get_subscription self subscribe_topic_name =
     (case find_one (\<lambda>x. sub_topic_name x = subscribe_topic_name) (f_subscriptions self) of
        Inr s \<Rightarrow> Inr s
      | Inl (ItemNotFoundError _) \<Rightarrow>
          Inl (ItemNotFoundError
                (''Failed to find subscription info. '' @
                 ''topic_name: '' @ subscribe_topic_name)))"

definition get_publisher ::
  "('p, 's, 'c, 'np, 'vp, 'mc) NodeStructValue \<Rightarrow> string \<Rightarrow> error + 'p PublisherStructValue"
  where
  "get_publisher self publish_topic_name =
     (case find_one (\<lambda>x. pub_topic_name x = publish_topic_name) (f_publishers self) of
        Inr p \<Rightarrow> Inr p
      | Inl (ItemNotFoundError _) \<Rightarrow>
          Inl (ItemNotFoundError
                (''Failed to find publisher info. '' @
                 ''topic_name: '' @ publish_topic_name)))"

section \<open>Calls on an instance\<close>

text \<open>
  A call of a property or method of a \<^verbatim>\<open>NodeStructValue\<close> returns a value or raises,
  and leaves the instance in some state.  No body in the class assigns to an attribute of
  \<^verbatim>\<open>self\<close>, and the tuples handed out are immutable, so the state after each call is
  the state before it.  \<open>call\<close> gives both: the outcome, and the instance afterwards.
\<close>

datatype op =
    Op_node_name
  | Op_publisher
  | Op_publish_topic_names
  | Op_subscribe_topic_names
  | Op_subscription_values
  | Op_callbacks
  | Op_callback_names
  | Op_callback_groups
  | Op_callback_group_names
  | Op_paths
  | Op_variable_passings
  | Op_message_contexts
  | Op_get_subscription string
  | Op_get_publisher string

datatype ('p, 's, 'c, 'np, 'vp, 'mc) ret =
    Ret_str string
  | Ret_strs "string list"
  | Ret_opt_strs "string list option"
  | Ret_publishers "'p PublisherStructValue list"
  | Ret_subscriptions "'s SubscriptionStructValue list"
  | Ret_opt_callbacks "'c CallbackStructValue list option"
  | Ret_opt_callback_groups "'c CallbackGroupStructValue list option"
  | Ret_paths "'np list"
  | Ret_opt_variable_passings "'vp list option"
  | Ret_message_contexts "'mc list"
  | Ret_publisher "'p PublisherStructValue"
  | Ret_subscription "'s SubscriptionStructValue"

fun call ::
  "op \<Rightarrow> ('p, 's, 'c, 'np, 'vp, 'mc) NodeStructValue \<Rightarrow>
   (error + ('p, 's, 'c, 'np, 'vp, 'mc) ret) \<times> ('p, 's, 'c, 'np, 'vp, 'mc) NodeStructValue"
  where
  "call Op_node_name self = (Inr (Ret_str (node_name self)), self)"
| "call Op_publisher self = (Inr (Ret_publishers (publisher self)), self)"
| "call Op_publish_topic_names self = (Inr (Ret_strs (publish_topic_names self)), self)"
| "call Op_subscribe_topic_names self = (Inr (Ret_strs (subscribe_topic_names self)), self)"
| "call Op_subscription_values self = (Inr (Ret_subscriptions (subscription_values self)), self)"
| "call Op_callbacks self = (Inr (Ret_opt_callbacks (callbacks self)), self)"
| "call Op_callback_names self = (Inr (Ret_opt_strs (callback_names self)), self)"
| "call Op_callback_groups self = (Inr (Ret_opt_callback_groups (callback_groups self)), self)"
| "call Op_callback_group_names self = (Inr (Ret_opt_strs (callback_group_names self)), self)"
| "call Op_paths self = (Inr (Ret_paths (paths self)), self)"
| "call Op_variable_passings self =
     (Inr (Ret_opt_variable_passings (variable_passings self)), self)"
| "call Op_message_contexts self = (Inr (Ret_message_contexts (message_contexts self)), self)"
| "call (Op_get_subscription t) self =
     (map_sum id Ret_subscription (get_subscription self t), self)"
| "call (Op_get_publisher t) self =
     (map_sum id Ret_publisher (get_publisher self t), self)"

fun is_lookup :: "op \<Rightarrow> bool" where
  "is_lookup (Op_get_subscription t) = True"
| "is_lookup (Op_get_publisher t) = True"
| "is_lookup _ = False"

section \<open>Concrete instances\<close>

text \<open>The node of the end-to-end scenario: one publisher on /out, one subscription on /in.\<close>

definition nodeA :: "(nat, nat, nat, nat, nat, nat) NodeStructValue" where
  "nodeA = NodeStructValue_init ''nodeA''
     [\<lparr>pub_topic_name = ''/out'', pub_rest = 0\<rparr>]
     [\<lparr>sub_topic_name = ''/in'', sub_rest = 0\<rparr>]
     [] None None []"

text \<open>A node with two publishers and two subscriptions on /x, and two callback groups.\<close>

definition nodeX :: "(nat, nat, nat, nat, nat, nat) NodeStructValue" where
  "nodeX = NodeStructValue_init ''nodeX''
     [\<lparr>pub_topic_name = ''/y'', pub_rest = 0\<rparr>,
      \<lparr>pub_topic_name = ''/x'', pub_rest = 1\<rparr>,
      \<lparr>pub_topic_name = ''/x'', pub_rest = 2\<rparr>]
     [\<lparr>sub_topic_name = ''/x'', sub_rest = 1\<rparr>,
      \<lparr>sub_topic_name = ''/x'', sub_rest = 2\<rparr>]
     [7]
     (Some [\<lparr>callback_group_name = ''A'',
             cbg_callbacks = [\<lparr>callback_name = ''c1'', cb_rest = 1\<rparr>,
                              \<lparr>callback_name = ''c2'', cb_rest = 2\<rparr>]\<rparr>,
            \<lparr>callback_group_name = ''B'',
             cbg_callbacks = [\<lparr>callback_name = ''c3'', cb_rest = 3\<rparr>]\<rparr>])
     (Some [])
     [5]"

section \<open>Helper lemmas\<close>

lemma flatten_concat: "flatten xss = concat xss"
  by (induction xss) simp_all

lemma find_one_filter_nil:
  "filter condition items = [] \<Longrightarrow> find_one condition items = Inl (ItemNotFoundError [])"
  by (induction items) (simp_all split: if_splits)

lemma find_one_filter_cons:
  "filter condition items = x # rest \<Longrightarrow> find_one condition items = Inr x"
  by (induction items) (simp_all split: if_splits)

lemma find_one_isl: "isl (find_one condition items) \<longleftrightarrow> filter condition items = []"
  by (induction items) simp_all

lemma call_state: "snd (call operation self) = self"
  by (cases operation) simp_all

lemma find_one_first:
  "find_one condition items = Inr x \<Longrightarrow>
   \<exists>pre suf. items = pre @ x # suf \<and> condition x \<and> (\<forall>y \<in> set pre. \<not> condition y)"
proof (induction items)
  case Nil
  then show ?case by simp
next
  case (Cons a items)
  show ?case
  proof (cases "condition a")
    case True
    with Cons.prems have "a = x" by simp
    with True have "a # items = [] @ x # items \<and> condition x \<and> (\<forall>y \<in> set []. \<not> condition y)"
      by simp
    then show ?thesis by blast
  next
    case False
    with Cons.prems have "find_one condition items = Inr x" by simp
    from Cons.IH [OF this] obtain pre suf where
      "items = pre @ x # suf" "condition x" "\<forall>y \<in> set pre. \<not> condition y"
      by blast
    with False have
      "a # items = (a # pre) @ x # suf \<and> condition x \<and> (\<forall>y \<in> set (a # pre). \<not> condition y)"
      by simp
    then show ?thesis by blast
  qed
qed

lemma filter_nil_not_in_image: "filter (\<lambda>x. f x = t) xs = [] \<longleftrightarrow> t \<notin> set (map f xs)"
  by (induction xs) auto

lemma count_list_map_filter: "count_list (map f xs) t = length (filter (\<lambda>x. f x = t) xs)"
  by (induction xs) simp_all

lemma get_publisher_isl:
  "isl (get_publisher self t) \<longleftrightarrow> filter (\<lambda>p. pub_topic_name p = t) (f_publishers self) = []"
proof (cases "find_one (\<lambda>x. pub_topic_name x = t) (f_publishers self)")
  case (Inl e)
  then have "isl (find_one (\<lambda>x. pub_topic_name x = t) (f_publishers self))" by simp
  then have "filter (\<lambda>p. pub_topic_name p = t) (f_publishers self) = []"
    by (simp only: find_one_isl)
  with Inl show ?thesis by (cases e) (simp add: get_publisher_def)
next
  case (Inr p)
  then have "\<not> isl (find_one (\<lambda>x. pub_topic_name x = t) (f_publishers self))" by simp
  then have "filter (\<lambda>p. pub_topic_name p = t) (f_publishers self) \<noteq> []"
    by (simp only: find_one_isl not_False_eq_True)
  with Inr show ?thesis by (simp add: get_publisher_def)
qed

lemma get_subscription_isl:
  "isl (get_subscription self t) \<longleftrightarrow>
   filter (\<lambda>s. sub_topic_name s = t) (f_subscriptions self) = []"
proof (cases "find_one (\<lambda>x. sub_topic_name x = t) (f_subscriptions self)")
  case (Inl e)
  then have "isl (find_one (\<lambda>x. sub_topic_name x = t) (f_subscriptions self))" by simp
  then have "filter (\<lambda>s. sub_topic_name s = t) (f_subscriptions self) = []"
    by (simp only: find_one_isl)
  with Inl show ?thesis by (cases e) (simp add: get_subscription_def)
next
  case (Inr s)
  then have "\<not> isl (find_one (\<lambda>x. sub_topic_name x = t) (f_subscriptions self))" by simp
  then have "filter (\<lambda>s. sub_topic_name s = t) (f_subscriptions self) \<noteq> []"
    by (simp only: find_one_isl not_False_eq_True)
  with Inr show ?thesis by (simp add: get_subscription_def)
qed

lemma get_publisher_not_found:
  "filter (\<lambda>p. pub_topic_name p = t) (f_publishers self) = [] \<Longrightarrow>
   get_publisher self t =
     Inl (ItemNotFoundError (''Failed to find publisher info. topic_name: '' @ t))"
  by (simp add: get_publisher_def find_one_filter_nil)

lemma get_subscription_not_found:
  "filter (\<lambda>s. sub_topic_name s = t) (f_subscriptions self) = [] \<Longrightarrow>
   get_subscription self t =
     Inl (ItemNotFoundError (''Failed to find subscription info. topic_name: '' @ t))"
  by (simp add: get_subscription_def find_one_filter_nil)

lemma get_publisher_found:
  "filter (\<lambda>p. pub_topic_name p = t) (f_publishers self) = p # rest \<Longrightarrow>
   get_publisher self t = Inr p"
  by (simp add: get_publisher_def find_one_filter_cons)

lemma get_subscription_found:
  "filter (\<lambda>s. sub_topic_name s = t) (f_subscriptions self) = s # rest \<Longrightarrow>
   get_subscription self t = Inr s"
  by (simp add: get_subscription_def find_one_filter_cons)

lemma sublist_suffix_part: "sublist t (pre @ t)"
  unfolding sublist_def by (rule exI [of _ pre], rule exI [of _ "[]"]) simp

lemma sublist_middle_part: "sublist xs (pre @ xs @ suf)"
  unfolding sublist_def by blast

lemma get_publisher_first:
  assumes "filter (\<lambda>p. pub_topic_name p = t) (f_publishers self) = x # rest"
  shows "get_publisher self t = Inr x \<and>
    (\<exists>pre suf. f_publishers self = pre @ x # suf \<and> (\<forall>q \<in> set pre. pub_topic_name q \<noteq> t))"
proof -
  from assms have found: "find_one (\<lambda>p. pub_topic_name p = t) (f_publishers self) = Inr x"
    by (rule find_one_filter_cons)
  from find_one_first [OF found] obtain pre suf where
    "f_publishers self = pre @ x # suf" "\<forall>q \<in> set pre. pub_topic_name q \<noteq> t"
    by blast
  with assms show ?thesis by (simp only: get_publisher_found) blast
qed

lemma get_subscription_first:
  assumes "filter (\<lambda>s. sub_topic_name s = t) (f_subscriptions self) = x # rest"
  shows "get_subscription self t = Inr x \<and>
    (\<exists>pre suf. f_subscriptions self = pre @ x # suf \<and>
       (\<forall>q \<in> set pre. sub_topic_name q \<noteq> t))"
proof -
  from assms have found: "find_one (\<lambda>s. sub_topic_name s = t) (f_subscriptions self) = Inr x"
    by (rule find_one_filter_cons)
  from find_one_first [OF found] obtain pre suf where
    "f_subscriptions self = pre @ x # suf" "\<forall>q \<in> set pre. sub_topic_name q \<noteq> t"
    by blast
  with assms show ?thesis by (simp only: get_subscription_found) blast
qed

lemma two_or_more_cons: "2 \<le> length xs \<Longrightarrow> \<exists>x rest. xs = x # rest \<and> hd xs = x"
  by (cases xs) simp_all

section \<open>Derived views\<close>

text \<open>
  Claim C1.  \<^verbatim>\<open>callbacks\<close> is \<open>None\<close> exactly when the stored callback groups are
  \<open>None\<close>; otherwise it is the callbacks of all groups, concatenated in group order and
  within each group in the group's own order.  With an empty sequence of groups the view
  is the empty sequence, not \<open>None\<close>.
\<close>

theorem callbacks_option_flattening:
  "(callbacks self = None \<longleftrightarrow> f_callback_groups self = None) \<and>
   callbacks self =
     map_option (\<lambda>groups. concat (map cbg_callbacks groups)) (f_callback_groups self) \<and>
   callbacks (self\<lparr>f_callback_groups := Some []\<rparr>) = Some []"
  by (cases "f_callback_groups self") (simp_all add: callbacks_def flatten_concat)

theorem callbacks_option_flattening_witness:
  "callbacks nodeA = None \<and>
   callbacks nodeX =
     Some [\<lparr>callback_name = ''c1'', cb_rest = 1\<rparr>,
           \<lparr>callback_name = ''c2'', cb_rest = 2\<rparr>,
           \<lparr>callback_name = ''c3'', cb_rest = 3\<rparr>] \<and>
   callbacks (nodeA\<lparr>f_callback_groups := Some []\<rparr>) = Some []"
  using callbacks_option_flattening [of nodeA] callbacks_option_flattening [of nodeX]
  by (simp add: nodeA_def nodeX_def NodeStructValue_init_def)

text \<open>
  Claim C3.  \<^verbatim>\<open>publish_topic_names\<close> is the topic-name projection of the publishers:
  entry by entry in the same order, hence of the same length, and a topic name occurs in
  it as many times as there are publishers on that topic.  \<^verbatim>\<open>subscribe_topic_names\<close>
  is the same projection of the subscriptions.
\<close>

theorem topic_names_projection:
  "publish_topic_names self = map pub_topic_name (publisher self) \<and>
   length (publish_topic_names self) = length (publisher self) \<and>
   count_list (publish_topic_names self) t =
     length (filter (\<lambda>p. pub_topic_name p = t) (publisher self)) \<and>
   subscribe_topic_names self = map sub_topic_name (subscription_values self) \<and>
   length (subscribe_topic_names self) = length (subscription_values self) \<and>
   count_list (subscribe_topic_names self) t =
     length (filter (\<lambda>s. sub_topic_name s = t) (subscription_values self))"
  by (simp add: publish_topic_names_def publisher_def subscribe_topic_names_def
      subscription_values_def count_list_map_filter)

theorem topic_names_projection_witness:
  "publish_topic_names nodeX = [''/y'', ''/x'', ''/x''] \<and>
   length (publisher nodeX) = 3 \<and>
   count_list (publish_topic_names nodeX) ''/x'' = 2 \<and>
   subscribe_topic_names nodeX = [''/x'', ''/x''] \<and>
   count_list (subscribe_topic_names nodeX) ''/x'' = 2"
  using topic_names_projection [of nodeX "''/x''"]
  by (simp add: nodeX_def NodeStructValue_init_def publisher_def subscription_values_def)

text \<open>
  Claim C6.  \<^verbatim>\<open>callback_names\<close> is \<open>None\<close> exactly when the stored callback groups are
  \<open>None\<close>, and otherwise the \<^verbatim>\<open>callback_name\<close> of each entry of \<^verbatim>\<open>callbacks\<close>, in
  the same order and of the same length.  \<^verbatim>\<open>callback_group_names\<close> is \<open>None\<close> under the
  same condition, and otherwise the name of each callback group, in the same order and of
  the same length.
\<close>

theorem callback_names_projection:
  "(callback_names self = None \<longleftrightarrow> f_callback_groups self = None) \<and>
   callback_names self = map_option (map callback_name) (callbacks self) \<and>
   map_option length (callback_names self) = map_option length (callbacks self) \<and>
   (callback_group_names self = None \<longleftrightarrow> f_callback_groups self = None) \<and>
   callback_group_names self = map_option (map callback_group_name) (callback_groups self) \<and>
   map_option length (callback_group_names self) = map_option length (callback_groups self)"
  by (cases "f_callback_groups self")
    (simp_all add: callback_names_def callbacks_def callback_group_names_def
      callback_groups_def)

theorem callback_names_projection_witness:
  "callback_names nodeA = None \<and>
   callback_group_names nodeA = None \<and>
   callback_names nodeX = Some [''c1'', ''c2'', ''c3''] \<and>
   callback_group_names nodeX = Some [''A'', ''B'']"
  using callback_names_projection [of nodeA] callback_names_projection [of nodeX]
  by (simp add: nodeA_def nodeX_def NodeStructValue_init_def callbacks_def
      callback_groups_def)

section \<open>Construction\<close>

text \<open>
  Claim C10.  Reading the direct accessors of a freshly constructed
  \<^verbatim>\<open>NodeStructValue\<close> gives back the constructor's arguments: \<^verbatim>\<open>node_name\<close>,
  \<^verbatim>\<open>publisher\<close>, \<^verbatim>\<open>subscription_values\<close>, \<^verbatim>\<open>paths\<close>, \<^verbatim>\<open>callback_groups\<close>,
  \<^verbatim>\<open>variable_passings\<close> and \<^verbatim>\<open>message_contexts\<close>.
\<close>

theorem init_accessor_roundtrip:
  "node_name (NodeStructValue_init n ps ss nps cgs vps mcs) = n \<and>
   publisher (NodeStructValue_init n ps ss nps cgs vps mcs) = ps \<and>
   subscription_values (NodeStructValue_init n ps ss nps cgs vps mcs) = ss \<and>
   paths (NodeStructValue_init n ps ss nps cgs vps mcs) = nps \<and>
   callback_groups (NodeStructValue_init n ps ss nps cgs vps mcs) = cgs \<and>
   variable_passings (NodeStructValue_init n ps ss nps cgs vps mcs) = vps \<and>
   message_contexts (NodeStructValue_init n ps ss nps cgs vps mcs) = mcs"
  by (simp add: NodeStructValue_init_def node_name_def publisher_def subscription_values_def
      paths_def callback_groups_def variable_passings_def message_contexts_def)

theorem init_accessor_roundtrip_witness:
  "node_name (NodeStructValue_init ''nodeA'' [\<lparr>pub_topic_name = ''/out'', pub_rest = 0::nat\<rparr>]
     [\<lparr>sub_topic_name = ''/in'', sub_rest = 0::nat\<rparr>] [4::nat]
     (Some [\<lparr>callback_group_name = ''A'', cbg_callbacks = []::nat CallbackStructValue list\<rparr>])
     (None::nat list option) [5::nat]) = ''nodeA'' \<and>
   publisher (NodeStructValue_init ''nodeA'' [\<lparr>pub_topic_name = ''/out'', pub_rest = 0::nat\<rparr>]
     [\<lparr>sub_topic_name = ''/in'', sub_rest = 0::nat\<rparr>] [4::nat]
     (Some [\<lparr>callback_group_name = ''A'', cbg_callbacks = []::nat CallbackStructValue list\<rparr>])
     (None::nat list option) [5::nat]) = [\<lparr>pub_topic_name = ''/out'', pub_rest = 0\<rparr>] \<and>
   subscription_values (NodeStructValue_init ''nodeA''
     [\<lparr>pub_topic_name = ''/out'', pub_rest = 0::nat\<rparr>]
     [\<lparr>sub_topic_name = ''/in'', sub_rest = 0::nat\<rparr>] [4::nat]
     (Some [\<lparr>callback_group_name = ''A'', cbg_callbacks = []::nat CallbackStructValue list\<rparr>])
     (None::nat list option) [5::nat]) = [\<lparr>sub_topic_name = ''/in'', sub_rest = 0\<rparr>] \<and>
   paths (NodeStructValue_init ''nodeA'' [\<lparr>pub_topic_name = ''/out'', pub_rest = 0::nat\<rparr>]
     [\<lparr>sub_topic_name = ''/in'', sub_rest = 0::nat\<rparr>] [4::nat]
     (Some [\<lparr>callback_group_name = ''A'', cbg_callbacks = []::nat CallbackStructValue list\<rparr>])
     (None::nat list option) [5::nat]) = [4] \<and>
   callback_groups (NodeStructValue_init ''nodeA''
     [\<lparr>pub_topic_name = ''/out'', pub_rest = 0::nat\<rparr>]
     [\<lparr>sub_topic_name = ''/in'', sub_rest = 0::nat\<rparr>] [4::nat]
     (Some [\<lparr>callback_group_name = ''A'', cbg_callbacks = []::nat CallbackStructValue list\<rparr>])
     (None::nat list option) [5::nat]) =
       Some [\<lparr>callback_group_name = ''A'', cbg_callbacks = []\<rparr>] \<and>
   variable_passings (NodeStructValue_init ''nodeA''
     [\<lparr>pub_topic_name = ''/out'', pub_rest = 0::nat\<rparr>]
     [\<lparr>sub_topic_name = ''/in'', sub_rest = 0::nat\<rparr>] [4::nat]
     (Some [\<lparr>callback_group_name = ''A'', cbg_callbacks = []::nat CallbackStructValue list\<rparr>])
     (None::nat list option) [5::nat]) = None \<and>
   message_contexts (NodeStructValue_init ''nodeA''
     [\<lparr>pub_topic_name = ''/out'', pub_rest = 0::nat\<rparr>]
     [\<lparr>sub_topic_name = ''/in'', sub_rest = 0::nat\<rparr>] [4::nat]
     (Some [\<lparr>callback_group_name = ''A'', cbg_callbacks = []::nat CallbackStructValue list\<rparr>])
     (None::nat list option) [5::nat]) = [5]"
  by (rule init_accessor_roundtrip)

section \<open>Lookups\<close>

text \<open>
  Claim C2.  When exactly one publisher has the requested topic name, \<^verbatim>\<open>get_publisher\<close>
  returns it.  When none has, it raises \<^verbatim>\<open>ItemNotFoundError\<close> with the message
  \<^verbatim>\<open>Failed to find publisher info. topic_name: \<close> followed by the requested name: the
  message contains the name and says that the publishers were searched.
  \<^verbatim>\<open>get_subscription\<close> does the same over the subscriptions, with
  \<^verbatim>\<open>subscription\<close> in the message.
\<close>

theorem lookup_unique_or_not_found:
  "(filter (\<lambda>p. pub_topic_name p = t) (publisher self) = [p] \<longrightarrow>
      get_publisher self t = Inr p \<and> pub_topic_name p = t \<and> p \<in> set (publisher self)) \<and>
   (filter (\<lambda>p. pub_topic_name p = t) (publisher self) = [] \<longrightarrow>
      (\<exists>e. get_publisher self t = Inl e \<and>
           error_message e = ''Failed to find publisher info. topic_name: '' @ t \<and>
           sublist t (error_message e) \<and> sublist ''publisher'' (error_message e))) \<and>
   (filter (\<lambda>s. sub_topic_name s = t) (subscription_values self) = [s] \<longrightarrow>
      get_subscription self t = Inr s \<and> sub_topic_name s = t \<and>
      s \<in> set (subscription_values self)) \<and>
   (filter (\<lambda>s. sub_topic_name s = t) (subscription_values self) = [] \<longrightarrow>
      (\<exists>e. get_subscription self t = Inl e \<and>
           error_message e = ''Failed to find subscription info. topic_name: '' @ t \<and>
           sublist t (error_message e) \<and> sublist ''subscription'' (error_message e)))"
proof (intro conjI impI)
  assume one: "filter (\<lambda>p. pub_topic_name p = t) (publisher self) = [p]"
  then show "get_publisher self t = Inr p"
    by (simp add: publisher_def get_publisher_found)
  from one have "p \<in> set (filter (\<lambda>p. pub_topic_name p = t) (publisher self))" by simp
  then show "pub_topic_name p = t" and "p \<in> set (publisher self)" by simp_all
next
  assume none: "filter (\<lambda>p. pub_topic_name p = t) (publisher self) = []"
  have msg: "''Failed to find publisher info. topic_name: '' @ t =
      ''Failed to find '' @ ''publisher'' @ ('' info. topic_name: '' @ t)"
    by simp
  have "sublist ''publisher'' (''Failed to find publisher info. topic_name: '' @ t)"
    by (subst msg) (rule sublist_middle_part)
  moreover have "sublist t (''Failed to find publisher info. topic_name: '' @ t)"
    by (rule sublist_suffix_part)
  moreover from none have "get_publisher self t =
      Inl (ItemNotFoundError (''Failed to find publisher info. topic_name: '' @ t))"
    by (simp add: publisher_def get_publisher_not_found)
  ultimately show "\<exists>e. get_publisher self t = Inl e \<and>
      error_message e = ''Failed to find publisher info. topic_name: '' @ t \<and>
      sublist t (error_message e) \<and> sublist ''publisher'' (error_message e)"
    by simp
next
  assume one: "filter (\<lambda>s. sub_topic_name s = t) (subscription_values self) = [s]"
  then show "get_subscription self t = Inr s"
    by (simp add: subscription_values_def get_subscription_found)
  from one have "s \<in> set (filter (\<lambda>s. sub_topic_name s = t) (subscription_values self))"
    by simp
  then show "sub_topic_name s = t" and "s \<in> set (subscription_values self)" by simp_all
next
  assume none: "filter (\<lambda>s. sub_topic_name s = t) (subscription_values self) = []"
  have msg: "''Failed to find subscription info. topic_name: '' @ t =
      ''Failed to find '' @ ''subscription'' @ ('' info. topic_name: '' @ t)"
    by simp
  have "sublist ''subscription'' (''Failed to find subscription info. topic_name: '' @ t)"
    by (subst msg) (rule sublist_middle_part)
  moreover have "sublist t (''Failed to find subscription info. topic_name: '' @ t)"
    by (rule sublist_suffix_part)
  moreover from none have "get_subscription self t =
      Inl (ItemNotFoundError (''Failed to find subscription info. topic_name: '' @ t))"
    by (simp add: subscription_values_def get_subscription_not_found)
  ultimately show "\<exists>e. get_subscription self t = Inl e \<and>
      error_message e = ''Failed to find subscription info. topic_name: '' @ t \<and>
      sublist t (error_message e) \<and> sublist ''subscription'' (error_message e)"
    by simp
qed

theorem lookup_unique_or_not_found_witness:
  "get_publisher nodeA ''/out'' = Inr \<lparr>pub_topic_name = ''/out'', pub_rest = 0\<rparr> \<and>
   get_subscription nodeA ''/out'' =
     Inl (ItemNotFoundError ''Failed to find subscription info. topic_name: /out'') \<and>
   sublist ''/out'' ''Failed to find subscription info. topic_name: /out'' \<and>
   get_subscription nodeA ''/in'' = Inr \<lparr>sub_topic_name = ''/in'', sub_rest = 0\<rparr> \<and>
   get_publisher nodeA ''/in'' =
     Inl (ItemNotFoundError ''Failed to find publisher info. topic_name: /in'') \<and>
   sublist ''publisher'' ''Failed to find publisher info. topic_name: /in''"
proof -
  have pubs: "publisher nodeA = [\<lparr>pub_topic_name = ''/out'', pub_rest = 0\<rparr>]"
    by (simp add: nodeA_def NodeStructValue_init_def publisher_def)
  have subs: "subscription_values nodeA = [\<lparr>sub_topic_name = ''/in'', sub_rest = 0\<rparr>]"
    by (simp add: nodeA_def NodeStructValue_init_def subscription_values_def)
  have out: "get_publisher nodeA ''/out'' = Inr \<lparr>pub_topic_name = ''/out'', pub_rest = 0\<rparr> \<and>
      (\<exists>e. get_subscription nodeA ''/out'' = Inl e \<and>
         error_message e = ''Failed to find subscription info. topic_name: '' @ ''/out'' \<and>
         sublist ''/out'' (error_message e) \<and> sublist ''subscription'' (error_message e))"
    using lookup_unique_or_not_found
      [of "''/out''" nodeA "\<lparr>pub_topic_name = ''/out'', pub_rest = 0\<rparr>"]
    by (simp add: pubs subs)
  have inn: "get_subscription nodeA ''/in'' = Inr \<lparr>sub_topic_name = ''/in'', sub_rest = 0\<rparr> \<and>
      (\<exists>e. get_publisher nodeA ''/in'' = Inl e \<and>
         error_message e = ''Failed to find publisher info. topic_name: '' @ ''/in'' \<and>
         sublist ''/in'' (error_message e) \<and> sublist ''publisher'' (error_message e))"
    using lookup_unique_or_not_found
      [of "''/in''" nodeA _ "\<lparr>sub_topic_name = ''/in'', sub_rest = 0\<rparr>"]
    by (simp add: pubs subs)
  from out obtain e1 where e1: "get_subscription nodeA ''/out'' = Inl e1"
    "error_message e1 = ''Failed to find subscription info. topic_name: /out''"
    "sublist ''/out'' (error_message e1)"
    by auto
  from inn obtain e2 where e2: "get_publisher nodeA ''/in'' = Inl e2"
    "error_message e2 = ''Failed to find publisher info. topic_name: /in''"
    "sublist ''publisher'' (error_message e2)"
    by auto
  from e1 have "e1 = ItemNotFoundError ''Failed to find subscription info. topic_name: /out''"
    by (cases e1) simp
  moreover from e2 have "e2 = ItemNotFoundError ''Failed to find publisher info. topic_name: /in''"
    by (cases e2) simp
  ultimately show ?thesis using out inn e1 e2 by simp
qed

text \<open>
  Claim C4.  When two or more publishers have the requested topic name,
  \<^verbatim>\<open>get_publisher\<close> returns the first of them in the order of the publishers (no entry
  before it has that topic name), and a second call on the same instance returns that
  entry again.  \<^verbatim>\<open>get_subscription\<close> does the same over the subscriptions.
\<close>

theorem lookup_first_match:
  "(2 \<le> length (filter (\<lambda>p. pub_topic_name p = t) (publisher self)) \<longrightarrow>
      get_publisher self t = Inr (hd (filter (\<lambda>p. pub_topic_name p = t) (publisher self))) \<and>
      (\<exists>pre suf.
         publisher self = pre @ hd (filter (\<lambda>p. pub_topic_name p = t) (publisher self)) # suf \<and>
         (\<forall>q \<in> set pre. pub_topic_name q \<noteq> t)) \<and>
      fst (call (Op_get_publisher t) (snd (call (Op_get_publisher t) self))) =
        Inr (Ret_publisher (hd (filter (\<lambda>p. pub_topic_name p = t) (publisher self))))) \<and>
   (2 \<le> length (filter (\<lambda>s. sub_topic_name s = t) (subscription_values self)) \<longrightarrow>
      get_subscription self t =
        Inr (hd (filter (\<lambda>s. sub_topic_name s = t) (subscription_values self))) \<and>
      (\<exists>pre suf.
         subscription_values self =
           pre @ hd (filter (\<lambda>s. sub_topic_name s = t) (subscription_values self)) # suf \<and>
         (\<forall>q \<in> set pre. sub_topic_name q \<noteq> t)) \<and>
      fst (call (Op_get_subscription t) (snd (call (Op_get_subscription t) self))) =
        Inr (Ret_subscription
              (hd (filter (\<lambda>s. sub_topic_name s = t) (subscription_values self)))))"
proof (intro conjI impI)
  assume "2 \<le> length (filter (\<lambda>p. pub_topic_name p = t) (publisher self))"
  then obtain x rest where
    x: "filter (\<lambda>p. pub_topic_name p = t) (f_publishers self) = x # rest"
    and hd: "hd (filter (\<lambda>p. pub_topic_name p = t) (publisher self)) = x"
    using two_or_more_cons [of "filter (\<lambda>p. pub_topic_name p = t) (publisher self)"]
    by (auto simp add: publisher_def)
  from get_publisher_first [OF x] have
    res: "get_publisher self t = Inr x" and
    first: "\<exists>pre suf. f_publishers self = pre @ x # suf \<and> (\<forall>q \<in> set pre. pub_topic_name q \<noteq> t)"
    by simp_all
  from res hd show
    "get_publisher self t = Inr (hd (filter (\<lambda>p. pub_topic_name p = t) (publisher self)))"
    by simp
  from first hd show "\<exists>pre suf.
      publisher self = pre @ hd (filter (\<lambda>p. pub_topic_name p = t) (publisher self)) # suf \<and>
      (\<forall>q \<in> set pre. pub_topic_name q \<noteq> t)"
    by (simp add: publisher_def)
  from res hd show "fst (call (Op_get_publisher t) (snd (call (Op_get_publisher t) self))) =
      Inr (Ret_publisher (hd (filter (\<lambda>p. pub_topic_name p = t) (publisher self))))"
    by simp
next
  assume "2 \<le> length (filter (\<lambda>s. sub_topic_name s = t) (subscription_values self))"
  then obtain x rest where
    x: "filter (\<lambda>s. sub_topic_name s = t) (f_subscriptions self) = x # rest"
    and hd: "hd (filter (\<lambda>s. sub_topic_name s = t) (subscription_values self)) = x"
    using two_or_more_cons [of "filter (\<lambda>s. sub_topic_name s = t) (subscription_values self)"]
    by (auto simp add: subscription_values_def)
  from get_subscription_first [OF x] have
    res: "get_subscription self t = Inr x" and
    first: "\<exists>pre suf. f_subscriptions self = pre @ x # suf \<and>
      (\<forall>q \<in> set pre. sub_topic_name q \<noteq> t)"
    by simp_all
  from res hd show "get_subscription self t =
      Inr (hd (filter (\<lambda>s. sub_topic_name s = t) (subscription_values self)))"
    by simp
  from first hd show "\<exists>pre suf.
      subscription_values self =
        pre @ hd (filter (\<lambda>s. sub_topic_name s = t) (subscription_values self)) # suf \<and>
      (\<forall>q \<in> set pre. sub_topic_name q \<noteq> t)"
    by (simp add: subscription_values_def)
  from res hd show
    "fst (call (Op_get_subscription t) (snd (call (Op_get_subscription t) self))) =
      Inr (Ret_subscription
            (hd (filter (\<lambda>s. sub_topic_name s = t) (subscription_values self))))"
    by simp
qed

theorem lookup_first_match_witness:
  "length (filter (\<lambda>p. pub_topic_name p = ''/x'') (publisher nodeX)) = 2 \<and>
   get_publisher nodeX ''/x'' = Inr \<lparr>pub_topic_name = ''/x'', pub_rest = 1\<rparr> \<and>
   fst (call (Op_get_publisher ''/x'') (snd (call (Op_get_publisher ''/x'') nodeX))) =
     Inr (Ret_publisher \<lparr>pub_topic_name = ''/x'', pub_rest = 1\<rparr>) \<and>
   length (filter (\<lambda>s. sub_topic_name s = ''/x'') (subscription_values nodeX)) = 2 \<and>
   get_subscription nodeX ''/x'' = Inr \<lparr>sub_topic_name = ''/x'', sub_rest = 1\<rparr> \<and>
   fst (call (Op_get_subscription ''/x'') (snd (call (Op_get_subscription ''/x'') nodeX))) =
     Inr (Ret_subscription \<lparr>sub_topic_name = ''/x'', sub_rest = 1\<rparr>)"
proof -
  have pubs: "filter (\<lambda>p. pub_topic_name p = ''/x'') (publisher nodeX) =
      [\<lparr>pub_topic_name = ''/x'', pub_rest = 1\<rparr>, \<lparr>pub_topic_name = ''/x'', pub_rest = 2\<rparr>]"
    by (simp add: nodeX_def NodeStructValue_init_def publisher_def)
  have subs: "filter (\<lambda>s. sub_topic_name s = ''/x'') (subscription_values nodeX) =
      [\<lparr>sub_topic_name = ''/x'', sub_rest = 1\<rparr>, \<lparr>sub_topic_name = ''/x'', sub_rest = 2\<rparr>]"
    by (simp add: nodeX_def NodeStructValue_init_def subscription_values_def)
  show ?thesis
    using lookup_first_match [of "''/x''" nodeX]
    by (simp only: pubs subs list.sel list.size length_Cons) simp
qed

section \<open>Failure, purity and equality\<close>

text \<open>
  Claim C5.  Every operation other than the two lookups returns a value and never raises.
  A call raises exactly when it is \<^verbatim>\<open>get_publisher\<close> with a topic name that no
  publisher has, or \<^verbatim>\<open>get_subscription\<close> with a topic name that no subscription has;
  what it raises is then \<^verbatim>\<open>ItemNotFoundError\<close>.
\<close>

theorem raises_only_on_missing_topic:
  "(\<not> is_lookup operation \<longrightarrow> (\<exists>v. fst (call operation self) = Inr v)) \<and>
   (isl (fst (call operation self)) \<longleftrightarrow>
      (\<exists>t. operation = Op_get_publisher t \<and> t \<notin> set (publish_topic_names self)) \<or>
      (\<exists>t. operation = Op_get_subscription t \<and> t \<notin> set (subscribe_topic_names self))) \<and>
   (isl (get_publisher self t) \<longleftrightarrow> t \<notin> set (publish_topic_names self)) \<and>
   (isl (get_subscription self t) \<longleftrightarrow> t \<notin> set (subscribe_topic_names self)) \<and>
   (\<forall>e. fst (call operation self) = Inl e \<longrightarrow> (\<exists>msg. e = ItemNotFoundError msg))"
proof (intro conjI)
  show "\<not> is_lookup operation \<longrightarrow> (\<exists>v. fst (call operation self) = Inr v)"
    by (cases operation) simp_all
  have pub: "isl (get_publisher self u) \<longleftrightarrow> u \<notin> set (publish_topic_names self)" for u
    by (simp only: get_publisher_isl filter_nil_not_in_image publish_topic_names_def)
  have sub: "isl (get_subscription self u) \<longleftrightarrow> u \<notin> set (subscribe_topic_names self)" for u
    by (simp only: get_subscription_isl filter_nil_not_in_image subscribe_topic_names_def)
  show "isl (get_publisher self t) \<longleftrightarrow> t \<notin> set (publish_topic_names self)"
    by (rule pub)
  show "isl (get_subscription self t) \<longleftrightarrow> t \<notin> set (subscribe_topic_names self)"
    by (rule sub)
  show "isl (fst (call operation self)) \<longleftrightarrow>
      (\<exists>t. operation = Op_get_publisher t \<and> t \<notin> set (publish_topic_names self)) \<or>
      (\<exists>t. operation = Op_get_subscription t \<and> t \<notin> set (subscribe_topic_names self))"
    by (cases operation) (simp_all add: isl_map_sum pub sub)
  show "\<forall>e. fst (call operation self) = Inl e \<longrightarrow> (\<exists>msg. e = ItemNotFoundError msg)"
  proof (intro allI impI)
    fix e
    show "\<exists>msg. e = ItemNotFoundError msg" by (cases e) simp
  qed
qed

theorem raises_only_on_missing_topic_witness:
  "fst (call Op_callbacks nodeA) = Inr (Ret_opt_callbacks None) \<and>
   fst (call Op_publish_topic_names nodeA) = Inr (Ret_strs [''/out'']) \<and>
   \<not> isl (fst (call (Op_get_publisher ''/out'') nodeA)) \<and>
   isl (fst (call (Op_get_publisher ''/missing'') nodeA)) \<and>
   isl (get_subscription nodeA ''/out'') \<and>
   fst (call (Op_get_publisher ''/missing'') nodeA) =
     Inl (ItemNotFoundError ''Failed to find publisher info. topic_name: /missing'')"
proof -
  have names: "publish_topic_names nodeA = [''/out'']" "subscribe_topic_names nodeA = [''/in'']"
    by (simp_all add: nodeA_def NodeStructValue_init_def publish_topic_names_def
        subscribe_topic_names_def)
  have total: "fst (call Op_callbacks nodeA) = Inr (Ret_opt_callbacks None)"
    using raises_only_on_missing_topic [of Op_callbacks nodeA "''/out''"]
    by (simp add: nodeA_def NodeStructValue_init_def callbacks_def)
  have found: "\<not> isl (fst (call (Op_get_publisher ''/out'') nodeA))"
    using raises_only_on_missing_topic [of "Op_get_publisher ''/out''" nodeA "''/out''"]
    by (simp add: names)
  have missing: "isl (fst (call (Op_get_publisher ''/missing'') nodeA)) \<and>
      isl (get_subscription nodeA ''/out'')"
    using raises_only_on_missing_topic [of "Op_get_publisher ''/missing''" nodeA "''/out''"]
    by (simp add: names)
  have msg: "fst (call (Op_get_publisher ''/missing'') nodeA) =
      Inl (ItemNotFoundError ''Failed to find publisher info. topic_name: /missing'')"
    by (simp add: nodeA_def NodeStructValue_init_def get_publisher_def)
  from total found missing msg names show ?thesis by simp
qed

text \<open>
  Claim C8.  Every operation, a lookup that fails with \<^verbatim>\<open>ItemNotFoundError\<close> included,
  leaves every field of the instance as it was: the node name, the publishers, the
  subscriptions, the node paths, the callback groups, the variable passings and the
  message contexts after the call are those before it.
\<close>

theorem call_preserves_fields:
  "f_node_name (snd (call operation self)) = f_node_name self \<and>
   f_publishers (snd (call operation self)) = f_publishers self \<and>
   f_subscriptions (snd (call operation self)) = f_subscriptions self \<and>
   f_node_path_values (snd (call operation self)) = f_node_path_values self \<and>
   f_callback_groups (snd (call operation self)) = f_callback_groups self \<and>
   f_variable_passings_info (snd (call operation self)) = f_variable_passings_info self \<and>
   f_message_contexts (snd (call operation self)) = f_message_contexts self"
  by (simp only: call_state)

theorem call_preserves_fields_witness:
  "isl (fst (call (Op_get_publisher ''/missing'') nodeA)) \<and>
   f_node_name (snd (call (Op_get_publisher ''/missing'') nodeA)) = ''nodeA'' \<and>
   f_publishers (snd (call (Op_get_publisher ''/missing'') nodeA)) =
     [\<lparr>pub_topic_name = ''/out'', pub_rest = 0\<rparr>] \<and>
   f_callback_groups (snd (call Op_callback_names nodeX)) = f_callback_groups nodeX \<and>
   f_message_contexts (snd (call Op_callback_names nodeX)) = [5]"
proof -
  have failed: "isl (fst (call (Op_get_publisher ''/missing'') nodeA))"
    by (simp add: nodeA_def NodeStructValue_init_def get_publisher_def)
  have before: "f_node_name nodeA = ''nodeA''"
    "f_publishers nodeA = [\<lparr>pub_topic_name = ''/out'', pub_rest = 0\<rparr>]"
    "f_message_contexts nodeX = [5]"
    by (simp_all add: nodeA_def nodeX_def NodeStructValue_init_def)
  from call_preserves_fields [of "Op_get_publisher ''/missing''" nodeA]
    call_preserves_fields [of Op_callback_names nodeX] failed before
  show ?thesis by (simp only: simp_thms)
qed

text \<open>
  Claim C9.  Calling an accessor twice on the same instance returns equal values: the
  second call, made on the instance as the first call left it, has the outcome of the
  first.  This holds for every operation, so in particular for \<^verbatim>\<open>node_name\<close>,
  \<^verbatim>\<open>publish_topic_names\<close>, \<^verbatim>\<open>subscribe_topic_names\<close>, \<^verbatim>\<open>callbacks\<close>,
  \<^verbatim>\<open>callback_names\<close>, \<^verbatim>\<open>callback_group_names\<close>, \<^verbatim>\<open>paths\<close>,
  \<^verbatim>\<open>variable_passings\<close> and \<^verbatim>\<open>message_contexts\<close>.
\<close>

theorem repeated_call_same_outcome:
  "fst (call operation (snd (call operation self))) = fst (call operation self)"
  by (simp only: call_state)

theorem repeated_call_same_outcome_witness:
  "fst (call Op_callback_names (snd (call Op_callback_names nodeX))) =
     Inr (Ret_opt_strs (Some [''c1'', ''c2'', ''c3''])) \<and>
   fst (call Op_paths (snd (call Op_paths nodeX))) = Inr (Ret_paths [7])"
proof -
  have first: "fst (call Op_callback_names nodeX) =
      Inr (Ret_opt_strs (Some [''c1'', ''c2'', ''c3'']))"
    "fst (call Op_paths nodeX) = Inr (Ret_paths [7])"
    by (simp_all add: nodeX_def NodeStructValue_init_def callback_names_def callbacks_def
        paths_def)
  from repeated_call_same_outcome [of Op_callback_names nodeX]
    repeated_call_same_outcome [of Op_paths nodeX] first
  show ?thesis by (simp only: simp_thms)
qed

text \<open>
  Claim C7.  Two \<^verbatim>\<open>NodeValue\<close> instances compare equal exactly when their
  \<^verbatim>\<open>node_name\<close> and their \<^verbatim>\<open>node_id\<close> are equal.  The comparison looks at the
  fields only: two distinct objects built from the same arguments compare equal.
\<close>

theorem NodeValue_eq_fieldwise:
  "(NodeValue_eq a b \<longleftrightarrow>
      nv_node_name (obj_state a) = nv_node_name (obj_state b) \<and>
      nv_node_id (obj_state a) = nv_node_id (obj_state b)) \<and>
   (NodeValue_eq (Obj i (NodeValue_init n1 id1)) (Obj j (NodeValue_init n2 id2)) \<longleftrightarrow>
      n1 = n2 \<and> id1 = id2) \<and>
   (NodeValue_eq a b \<longleftrightarrow> obj_state a = obj_state b)"
  by (cases "obj_state a"; cases "obj_state b")
    (simp add: NodeValue_eq_def NodeValue_init_def nv_node_name_def nv_node_id_def)

theorem NodeValue_eq_fieldwise_witness:
  "NodeValue_eq (Obj 1 (NodeValue_init ''n'' (Some ''a''))) (Obj 2 (NodeValue_init ''n'' (Some ''a''))) \<and>
   \<not> is_same (Obj 1 (NodeValue_init ''n'' (Some ''a''))) (Obj 2 (NodeValue_init ''n'' (Some ''a''))) \<and>
   \<not> NodeValue_eq (Obj 1 (NodeValue_init ''n'' (Some ''a''))) (Obj 1 (NodeValue_init ''m'' (Some ''a''))) \<and>
   \<not> NodeValue_eq (Obj 1 (NodeValue_init ''n'' (Some ''a''))) (Obj 1 (NodeValue_init ''n'' None))"
proof -
  note built = NodeValue_eq_fieldwise [THEN conjunct2, THEN conjunct1]
  have "NodeValue_eq (Obj 1 (NodeValue_init ''n'' (Some ''a'')))
      (Obj 2 (NodeValue_init ''n'' (Some ''a'')))"
    by (simp add: built)
  moreover have "\<not> NodeValue_eq (Obj 1 (NodeValue_init ''n'' (Some ''a'')))
      (Obj 1 (NodeValue_init ''m'' (Some ''a'')))"
    by (simp add: built)
  moreover have "\<not> NodeValue_eq (Obj 1 (NodeValue_init ''n'' (Some ''a'')))
      (Obj 1 (NodeValue_init ''n'' None))"
    by (simp add: built)
  ultimately show ?thesis by (simp add: is_same_def)
qed

end
